theory Spec2Isabelle
  imports Complex_Main "HOL-Library.AList"
begin

section \<open>Calendar events and conflict detection\<close>

text \<open>
  Source: the SQLAlchemy model \<^verbatim>\<open>CalendarEvent\<close> (wiki-deploy/Database-Schema.md) and
  the Calendar Agent's \<^verbatim>\<open>_check_conflicts\<close> (wiki-deploy/Agent-Framework.md).

  A Python \<^verbatim>\<open>datetime\<close> is a point on a discrete, totally ordered time line
  (microsecond resolution); it is modelled as an integer count of microseconds.
  Columns declared without \<^verbatim>\<open>nullable=False\<close> may hold \<^verbatim>\<open>None\<close>. The column
  \<^verbatim>\<open>id\<close> is written \<open>id'\<close>, since \<open>id\<close> is the identity function of HOL.
\<close>

type_synonym datetime = int

record CalendarEvent =
  id' :: int
  title :: string
  description :: "string option"
  start_time :: datetime
  end_time :: datetime
  location :: "string option"
  all_day :: bool
  created_at :: datetime
  updated_at :: datetime

text \<open>
  \<^verbatim>\<open>
  def conflicts_with(self, start_time, end_time):
      return not (self.end_time <= start_time or self.start_time >= end_time)
  \<close>
\<close>

definition conflicts_with :: "CalendarEvent \<Rightarrow> datetime \<Rightarrow> datetime \<Rightarrow> bool" where
  "conflicts_with self start_time' end_time' =
     (\<not> (end_time self \<le> start_time' \<or> start_time self \<ge> end_time'))"

text \<open>
  \<^verbatim>\<open>
  def _check_conflicts(self, start_time, end_time):
      return CalendarEvent.query.filter(
          CalendarEvent.start_time < end_time,
          CalendarEvent.end_time > start_time
      ).all()
  \<close>
  The table \<^verbatim>\<open>calendar_events\<close> is the list of its rows; the query keeps the rows
  that satisfy both filter criteria.
\<close>

definition check_conflicts :: "CalendarEvent list \<Rightarrow> datetime \<Rightarrow> datetime \<Rightarrow> CalendarEvent list" where
  "check_conflicts calendar_events start_time' end_time' =
     filter (\<lambda>ev. start_time ev < end_time' \<and> end_time ev > start_time') calendar_events"

text \<open>An event row carrying only the interval; the other columns are irrelevant here.\<close>

definition interval_event :: "datetime \<Rightarrow> datetime \<Rightarrow> CalendarEvent" where
  "interval_event s e =
     \<lparr>id' = 1, title = ''event'', description = None, start_time = s, end_time = e,
      location = None, all_day = False, created_at = 0, updated_at = 0\<rparr>"


section \<open>Session state\<close>

text \<open>
  Source: the dataclass \<^verbatim>\<open>WorkflowState\<close> (wiki-deploy/Agent-Framework.md).
  \<^verbatim>\<open>
  @dataclass
  class WorkflowState:
      session_id: str
      created_at: datetime
      last_activity: datetime
      message_history: List[Dict]
      agent_states: Dict[str, Any]
      context: Dict[str, Any]

      def add_message(self, role: str, content: str, agent_type: str = None):
          self.message_history.append({
              'role': role,
              'content': content,
              'agent_type': agent_type,
              'timestamp': datetime.utcnow()
          })
          self.last_activity = datetime.utcnow()
  \<close>
  A history entry is a dictionary from keys to values; the values that occur are strings,
  \<^verbatim>\<open>None\<close> and datetimes. The two calls of \<^verbatim>\<open>datetime.utcnow()\<close> are two readings of
  the clock, passed to the model in the order in which the code takes them. The field
  \<^verbatim>\<open>context\<close> is written \<open>context'\<close> (\<open>context\<close> is a keyword of Isabelle).
\<close>

datatype pyval = Str string | NoneVal | Datetime datetime

type_synonym message = "string \<rightharpoonup> pyval"

record ('s, 'c) WorkflowState =
  session_id :: string
  created_at :: datetime
  last_activity :: datetime
  message_history :: "message list"
  agent_states :: "string \<rightharpoonup> 's"
  context' :: "string \<rightharpoonup> 'c"

definition str_or_none :: "string option \<Rightarrow> pyval" where
  "str_or_none v = (case v of None \<Rightarrow> NoneVal | Some s \<Rightarrow> Str s)"

definition new_message :: "string \<Rightarrow> string \<Rightarrow> string option \<Rightarrow> datetime \<Rightarrow> message" where
  "new_message role content agent_type utcnow =
     [''role'' \<mapsto> Str role, ''content'' \<mapsto> Str content,
      ''agent_type'' \<mapsto> str_or_none agent_type, ''timestamp'' \<mapsto> Datetime utcnow]"

definition add_message ::
  "('s, 'c) WorkflowState \<Rightarrow> string \<Rightarrow> string \<Rightarrow> string option \<Rightarrow> datetime \<Rightarrow> datetime
     \<Rightarrow> ('s, 'c) WorkflowState" where
  "add_message self role content agent_type utcnow1 utcnow2 =
     self\<lparr>message_history := message_history self @ [new_message role content agent_type utcnow1],
          last_activity := utcnow2\<rparr>"


section \<open>Error recovery\<close>

subsection \<open>Retry with exponential backoff\<close>

text \<open>
  Source: \<^verbatim>\<open>ErrorRecoveryManager.with_retry\<close> (wiki/Troubleshooting.md).
  \<^verbatim>\<open>
  async def with_retry(self, operation, *args, **kwargs):
      for attempt in range(self.max_retries):
          try:
              return await operation(*args, **kwargs)
          except Exception as e:
              if attempt == self.max_retries - 1:
                  raise
              wait_time = 2 ** attempt  # Exponential backoff
              await asyncio.sleep(wait_time)
              logger.warning(...)
  \<close>
  The operation is effectful and may behave differently each time it is awaited: it is
  modelled by the outcome of its n-th invocation (counted from 0), \<open>Inl e\<close> when it raises
  the exception \<open>e\<close> and \<open>Inr r\<close> when it returns \<open>r\<close>. The exceptions are those
  that \<^verbatim>\<open>except Exception\<close> catches. The model returns what the caller
  observes (a value, the implicit \<^verbatim>\<open>None\<close> of a loop that ends, or the exception
  re-raised) together with the trace of invocations and sleeps, in order.
\<close>

datatype event = Invoke nat | Sleep int

datatype ('e, 'r) retry_result = Returned 'r | ReturnedNone | Raised 'e

record ('e, 'r) retry_run =
  result :: "('e, 'r) retry_result"
  trace :: "event list"

text \<open>Python's \<^verbatim>\<open>range(n)\<close>, written \<open>range'\<close> (\<open>range\<close> is the range of a function in HOL).\<close>

definition range' :: "int \<Rightarrow> int list" where
  "range' n = map int [0..<nat n]"

fun retry_loop ::
  "int \<Rightarrow> (nat \<Rightarrow> 'e + 'r) \<Rightarrow> int list \<Rightarrow> nat \<Rightarrow> event list \<Rightarrow> ('e, 'r) retry_run" where
  "retry_loop max_retries operation [] n tr = \<lparr>result = ReturnedNone, trace = tr\<rparr>"
| "retry_loop max_retries operation (attempt # rest) n tr =
     (case operation n of
        Inr r \<Rightarrow> \<lparr>result = Returned r, trace = tr @ [Invoke n]\<rparr>
      | Inl e \<Rightarrow>
          if attempt = max_retries - 1 then \<lparr>result = Raised e, trace = tr @ [Invoke n]\<rparr>
          else retry_loop max_retries operation rest (Suc n)
                 (tr @ [Invoke n, Sleep (2 ^ nat attempt)]))"

definition with_retry :: "int \<Rightarrow> (nat \<Rightarrow> 'e + 'r) \<Rightarrow> ('e, 'r) retry_run" where
  "with_retry max_retries operation = retry_loop max_retries operation (range' max_retries) 0 []"

definition invocations :: "event list \<Rightarrow> nat" where
  "invocations tr = length (filter (\<lambda>ev. case ev of Invoke n \<Rightarrow> True | Sleep w \<Rightarrow> False) tr)"

subsection \<open>Circuit breaker\<close>

text \<open>
  Source: \<^verbatim>\<open>CircuitBreaker\<close> (wiki/Troubleshooting.md).
  \<^verbatim>\<open>
  class CircuitBreaker:
      def __init__(self, failure_threshold=5, timeout=60):
          self.failure_threshold = failure_threshold
          self.timeout = timeout
          self.failure_count = 0
          self.last_failure_time = None
          self.state = 'CLOSED'  # CLOSED, OPEN, HALF_OPEN
  \<close>
  \<^verbatim>\<open>time.time()\<close> is a number of seconds; times and the timeout are real numbers.
\<close>

datatype breaker_state = CLOSED | OPEN | HALF_OPEN

record CircuitBreaker =
  failure_threshold :: int
  timeout :: real
  failure_count :: int
  last_failure_time :: "real option"
  state :: breaker_state

definition CircuitBreaker_init :: "int \<Rightarrow> real \<Rightarrow> CircuitBreaker" where
  "CircuitBreaker_init failure_threshold' timeout' =
     \<lparr>failure_threshold = failure_threshold', timeout = timeout', failure_count = 0,
      last_failure_time = None, state = CLOSED\<rparr>"

definition CircuitBreaker_default :: CircuitBreaker where
  "CircuitBreaker_default = CircuitBreaker_init 5 60"

text \<open>
  The exceptions a call can end with: the breaker's own
  \<^verbatim>\<open>Exception("Circuit breaker is OPEN")\<close>, the \<^verbatim>\<open>TypeError\<close> of
  \<^verbatim>\<open>time.time() - None\<close>, and an exception of the operation, re-raised.
\<close>

datatype 'e exn = Exception string | TypeError | OperationError 'e

text \<open>
  \<^verbatim>\<open>
  async def call(self, operation, *args, **kwargs):
      if self.state == 'OPEN':
          if time.time() - self.last_failure_time > self.timeout:
              self.state = 'HALF_OPEN'
          else:
              raise Exception("Circuit breaker is OPEN")
  \<close>
  The first statement of \<^verbatim>\<open>call\<close>: it either raises, leaving the breaker as it was, or
  lets the call proceed with the breaker it returns.
\<close>

definition gate :: "CircuitBreaker \<Rightarrow> real \<Rightarrow> 'e exn + CircuitBreaker" where
  "gate self now =
     (if state self = OPEN then
        (case last_failure_time self of
           None \<Rightarrow> Inl TypeError
         | Some t \<Rightarrow>
             if now - t > timeout self then Inr (self\<lparr>state := HALF_OPEN\<rparr>)
             else Inl (Exception ''Circuit breaker is OPEN''))
      else Inr self)"

text \<open>
  \<^verbatim>\<open>
      try:
          result = await operation(*args, **kwargs)
          if self.state == 'HALF_OPEN':
              self.state = 'CLOSED'
              self.failure_count = 0
          return result
      except Exception as e:
          self.failure_count += 1
          self.last_failure_time = time.time()
          if self.failure_count >= self.failure_threshold:
              self.state = 'OPEN'
          raise
  \<close>
  The second statement: the operation is awaited; \<open>outcome\<close> is what it does (\<open>Inl e\<close>: it
  raises \<open>e\<close>), \<open>now\<close> is the clock read by the handler.
\<close>

definition attempt ::
  "CircuitBreaker \<Rightarrow> 'e + 'r \<Rightarrow> real \<Rightarrow> ('e exn + 'r) \<times> CircuitBreaker" where
  "attempt self outcome now =
     (case outcome of
        Inr res \<Rightarrow>
          (Inr res,
           if state self = HALF_OPEN then self\<lparr>state := CLOSED, failure_count := 0\<rparr> else self)
      | Inl e \<Rightarrow>
          (let self1 = self\<lparr>failure_count := failure_count self + 1, last_failure_time := Some now\<rparr>
           in (Inl (OperationError e),
               if failure_count self1 \<ge> failure_threshold self1 then self1\<lparr>state := OPEN\<rparr>
               else self1)))"

text \<open>
  What one call meets: the clock reading at the check of the OPEN state, the outcome of
  the operation if it is awaited, and the clock reading in the exception handler.
\<close>

record ('e, 'r) invocation =
  now_check :: real
  outcome :: "'e + 'r"
  now_fail :: real

text \<open>
  What one call leaves: its result (\<open>Inl\<close>: the exception raised), whether the operation
  was invoked, and the breaker afterwards.
\<close>

record ('e, 'r) call_result =
  returned :: "'e exn + 'r"
  invoked :: bool
  breaker :: CircuitBreaker

definition call :: "CircuitBreaker \<Rightarrow> ('e, 'r) invocation \<Rightarrow> ('e, 'r) call_result" where
  "call self c =
     (case gate self (now_check c) of
        Inl ex \<Rightarrow> \<lparr>returned = Inl ex, invoked = False, breaker = self\<rparr>
      | Inr self' \<Rightarrow>
          (case attempt self' (outcome c) (now_fail c) of
             (r, self'') \<Rightarrow> \<lparr>returned = r, invoked = True, breaker = self''\<rparr>))"

text \<open>A sequence of calls through one breaker, one after the other.\<close>

fun calls :: "CircuitBreaker \<Rightarrow> ('e, 'r) invocation list \<Rightarrow> CircuitBreaker" where
  "calls self [] = self"
| "calls self (c # cs) = calls (breaker (call self c)) cs"


section \<open>Workflow orchestration\<close>

text \<open>
  Source: \<^verbatim>\<open>BaseAgent\<close>, \<^verbatim>\<open>PersonalAssistantAgent.can_handle\<close> and the
  \<^verbatim>\<open>WorkflowEngine\<close> (wiki-deploy/Agent-Framework.md).

  An agent is an object with a type name and the method \<^verbatim>\<open>can_handle(task, context)\<close>;
  the methods that do not matter for agent selection are left out.
  \<^verbatim>\<open>
  def can_handle(self, task: str, context: Dict[str, Any]) -> bool:
      # Personal Assistant can handle any task by delegating or responding directly
      return True
  \<close>
  The coordinator is registered under the key \<^verbatim>\<open>'personal_assistant'\<close>
  (\<^verbatim>\<open>coordinator = self.agents['personal_assistant']\<close> in \<^verbatim>\<open>route_task\<close>).
\<close>

record 'c BaseAgent =
  agent_type :: string
  can_handle :: "string \<Rightarrow> 'c \<Rightarrow> bool"

definition PersonalAssistantAgent :: "'c BaseAgent" where
  "PersonalAssistantAgent =
     \<lparr>agent_type = ''personal_assistant'', can_handle = (\<lambda>task context. True)\<rparr>"

text \<open>
  \<^verbatim>\<open>self.agents\<close> is a Python dictionary: an association list with distinct keys in
  insertion order; assigning to a key that is present keeps its position.
  \<^verbatim>\<open>
  def register_agent(self, agent: BaseAgent):
      self.agents[agent.agent_type] = agent
  \<close>
\<close>

type_synonym 'c agents = "(string \<times> 'c BaseAgent) list"

definition register_agent :: "'c agents \<Rightarrow> 'c BaseAgent \<Rightarrow> 'c agents" where
  "register_agent agents agent = AList.update (agent_type agent) agent agents"

datatype py_error = ValueError | KeyError

text \<open>
  Python's \<^verbatim>\<open>max(iterable, key=...)\<close>: the first element whose key is maximal;
  \<^verbatim>\<open>ValueError\<close> on an empty iterable.
\<close>

fun max_by :: "('a \<Rightarrow> 'k::linorder) \<Rightarrow> 'a list \<Rightarrow> py_error + 'a" where
  "max_by key [] = Inl ValueError"
| "max_by key (x # xs) = Inr (foldl (\<lambda>best y. if key y > key best then y else best) x xs)"

text \<open>
  \<^verbatim>\<open>
  def _select_best_agent(self, task, context) -> BaseAgent:
      agent_scores = {}
      for agent_type, agent in self.agents.items():
          if agent.can_handle(task, context):
              score = self._calculate_agent_score(agent, task, context)
              agent_scores[agent_type] = score
      best_agent_type = max(agent_scores.items(), key=lambda x: x[1])[0]
      return self.agents[best_agent_type]
  \<close>
  \<^verbatim>\<open>_calculate_agent_score\<close> is not part of the source: it is a parameter, with scores
  in any linear order. \<open>agent_scores\<close> is the dictionary the loop builds.
\<close>

definition agent_scores ::
  "('c BaseAgent \<Rightarrow> string \<Rightarrow> 'c \<Rightarrow> 'k) \<Rightarrow> 'c agents \<Rightarrow> string \<Rightarrow> 'c \<Rightarrow> (string \<times> 'k) list" where
  "agent_scores calculate_agent_score agents task context =
     foldl (\<lambda>scores (agent_type, agent).
              if can_handle agent task context
              then AList.update agent_type (calculate_agent_score agent task context) scores
              else scores)
       [] agents"

definition select_best_agent ::
  "('c BaseAgent \<Rightarrow> string \<Rightarrow> 'c \<Rightarrow> 'k::linorder) \<Rightarrow> 'c agents \<Rightarrow> string \<Rightarrow> 'c
     \<Rightarrow> py_error + 'c BaseAgent" where
  "select_best_agent calculate_agent_score agents task context =
     (case max_by snd (agent_scores calculate_agent_score agents task context) of
        Inl err \<Rightarrow> Inl err
      | Inr (best_agent_type, score) \<Rightarrow>
          (case map_of agents best_agent_type of
             None \<Rightarrow> Inl KeyError
           | Some agent \<Rightarrow> Inr agent))"


section \<open>Configuration\<close>

text \<open>
  Source: \<^verbatim>\<open>SecurityConfig\<close> (AI Agent Guardrails and Security Framework) and \<^verbatim>\<open>Config\<close>
  (the wiki's architecture page).
  \<^verbatim>\<open>
  class SecurityConfig:
      MAX_AGENT_ITERATIONS = int(os.environ.get('MAX_AGENT_ITERATIONS', '10'))

  class Config:
      MAX_AGENT_ITERATIONS = 10
  \<close>
  The argument of \<open>MAX_AGENT_ITERATIONS\<close> is the integer value of the environment variable
  when it is set.
\<close>

definition MAX_AGENT_ITERATIONS :: "int option \<Rightarrow> int" where
  "MAX_AGENT_ITERATIONS environ = (case environ of None \<Rightarrow> 10 | Some n \<Rightarrow> n)"

definition Config_MAX_AGENT_ITERATIONS :: int where
  "Config_MAX_AGENT_ITERATIONS = 10"




section \<open>Web client\<close>

text \<open>
  Source: the class \<^verbatim>\<open>ChatInterface\<close> (static/js/chat.js).

  A JavaScript string is a sequence of UTF-16 code units. \<^verbatim>\<open>String.prototype.trim\<close>
  removes white space and line terminators from both ends: TAB, LF, VT, FF, CR, SPACE,
  NBSP, U+1680, U+2000 to U+200A, U+2028, U+2029, U+202F, U+205F, U+3000 and U+FEFF.
\<close>

type_synonym jsstring = "nat list"

definition js :: "string \<Rightarrow> jsstring" where
  "js s = map of_char s"

definition is_white_space :: "nat \<Rightarrow> bool" where
  "is_white_space c =
     (c \<in> {9, 10, 11, 12, 13, 32, 160, 5760, 8232, 8233, 8239, 8287, 12288, 65279}
      \<or> (8192 \<le> c \<and> c \<le> 8202))"

definition trim :: "jsstring \<Rightarrow> jsstring" where
  "trim s = rev (dropWhile is_white_space (rev (dropWhile is_white_space s)))"

text \<open>
  The JSON body of a reply of \<^verbatim>\<open>/api/chat\<close>, with the fields \<^verbatim>\<open>sendMessage\<close> reads
  for its control flow and for the history (\<open>None\<close>: the field is absent).
\<close>

record chat_response =
  response_success :: bool
  response_message :: jsstring
  response_agent_type :: "jsstring option"
  response_session_id :: "jsstring option"
  response_error :: "jsstring option"

text \<open>
  An element of the chat pane: a message bubble (role and content) or an error bubble.
\<close>

datatype dom_message = Bubble jsstring jsstring | ErrorBubble jsstring

text \<open>
  \<^verbatim>\<open>sendMessage\<close> is an asynchronous function: it runs up to its first \<^verbatim>\<open>await\<close>
  when it is called, and each later part runs when the promise it waits for settles.
  A call that has issued its request is suspended at one of two points: at
  \<^verbatim>\<open>await fetch(...)\<close> (the request is under way), or at \<^verbatim>\<open>await response.json()\<close>
  (the reply has arrived with \<^verbatim>\<open>response.ok\<close> true or false, its body is being read).
\<close>

datatype phase = AwaitFetch | AwaitBody bool

text \<open>
  The instance: the fields of the class and the properties of the page's elements that
  the methods write. \<open>requests\<close> is the log of the requests sent to \<^verbatim>\<open>/api/chat\<close>
  (message and session id of the body), \<open>pending\<close> the suspended calls of
  \<^verbatim>\<open>sendMessage\<close>. Time stamps and the rendering of a bubble are left out.
  \<^verbatim>\<open>
  constructor(sessionId) {
      this.sessionId = sessionId;
      ...
      this.isProcessing = false;
      this.messageHistory = [];
      this.init();
  }
  \<close>
\<close>

record ChatInterface =
  sessionId :: jsstring
  messageInput_value :: jsstring
  isProcessing :: bool
  messageHistory :: "(jsstring \<times> jsstring) list"
  chatMessages :: "dom_message list"
  sendButton_disabled :: bool
  messageInput_disabled :: bool
  typingIndicator_shown :: bool
  requests :: "(jsstring \<times> jsstring) list"
  pending :: "phase list"

definition constructor :: "jsstring \<Rightarrow> jsstring \<Rightarrow> ChatInterface" where
  "constructor sid input =
     \<lparr>sessionId = sid, messageInput_value = input, isProcessing = False, messageHistory = [],
      chatMessages = [], sendButton_disabled = False, messageInput_disabled = False,
      typingIndicator_shown = False, requests = [], pending = []\<rparr>"

text \<open>
  \<^verbatim>\<open>addMessage(role, content, options)\<close> appends a bubble to the pane and an entry to
  \<^verbatim>\<open>messageHistory\<close>; \<^verbatim>\<open>addErrorMessage(error)\<close> appends an error bubble only.
\<close>

definition addMessage :: "ChatInterface \<Rightarrow> jsstring \<Rightarrow> jsstring \<Rightarrow> ChatInterface" where
  "addMessage this role content =
     this\<lparr>chatMessages := chatMessages this @ [Bubble role content],
          messageHistory := messageHistory this @ [(role, content)]\<rparr>"

definition addErrorMessage :: "ChatInterface \<Rightarrow> jsstring \<Rightarrow> ChatInterface" where
  "addErrorMessage this err = this\<lparr>chatMessages := chatMessages this @ [ErrorBubble err]\<rparr>"

text \<open>
  \<^verbatim>\<open>
  setProcessing(isProcessing) {
      this.isProcessing = isProcessing;
      if (isProcessing) {
          this.sendButton.disabled = true;
          this.sendButton.classList.add('btn-loading');
          this.messageInput.disabled = true;
          this.typingIndicator.style.display = 'flex';
      } else {
          this.sendButton.disabled = false;
          this.sendButton.classList.remove('btn-loading');
          this.messageInput.disabled = false;
          this.typingIndicator.style.display = 'none';
          this.messageInput.focus();
      }
      this.scrollToBottom();
  }
  \<close>
\<close>

definition setProcessing :: "ChatInterface \<Rightarrow> bool \<Rightarrow> ChatInterface" where
  "setProcessing this b =
     this\<lparr>isProcessing := b, sendButton_disabled := b, messageInput_disabled := b,
          typingIndicator_shown := b\<rparr>"

text \<open>
  The part of \<^verbatim>\<open>sendMessage\<close> that runs when it is called, up to the
  \<^verbatim>\<open>await fetch('/api/chat', ...)\<close> inside \<^verbatim>\<open>callChatAPI\<close>:
  \<^verbatim>\<open>
  async sendMessage() {
      const message = this.messageInput.value.trim();
      if (!message || this.isProcessing) {
          return;
      }
      this.addMessage('user', message);
      this.messageInput.value = '';
      this.setProcessing(true);
      try {
          const response = await this.callChatAPI(message);
  \<close>
  \<^verbatim>\<open>
  async callChatAPI(message) {
      const response = await fetch('/api/chat', {
          method: 'POST', headers: {...},
          body: JSON.stringify({ message: message, session_id: this.sessionId })
      });
  \<close>
\<close>

definition sendMessage :: "ChatInterface \<Rightarrow> ChatInterface" where
  "sendMessage this =
     (let message = trim (messageInput_value this) in
      if message = [] \<or> isProcessing this then this
      else
        (let this1 = addMessage this (js ''user'') message;
             this2 = this1\<lparr>messageInput_value := []\<rparr>;
             this3 = setProcessing this2 True
         in this3\<lparr>requests := requests this3 @ [(message, sessionId this3)],
                  pending := pending this3 @ [AwaitFetch]\<rparr>))"

text \<open>How the promise of \<^verbatim>\<open>fetch\<close> settles: it rejects, or it yields a reply
  with \<^verbatim>\<open>response.ok\<close> true or false. How the promise of \<^verbatim>\<open>response.json()\<close>
  settles: it rejects (also standing for a body whose fields cannot be read), or it
  yields the reply's object.\<close>

datatype fetch_outcome = NetworkError | HttpResponse bool

datatype body_outcome = ParseError | Json chat_response

definition remove_nth :: "nat \<Rightarrow> 'a list \<Rightarrow> 'a list" where
  "remove_nth k xs = take k xs @ drop (Suc k) xs"

text \<open>
  The end of the k-th suspended call through the handler of an exception:
  \<^verbatim>\<open>
      } catch (error) {
          console.error('Error sending message:', error);
          this.addErrorMessage('Failed to send message. Please check your connection and try again.');
      } finally {
          this.setProcessing(false);
      }
  \<close>
\<close>

definition on_catch :: "ChatInterface \<Rightarrow> nat \<Rightarrow> ChatInterface" where
  "on_catch this k =
     setProcessing
       ((addErrorMessage this
          (js ''Failed to send message. Please check your connection and try again.''))
        \<lparr>pending := remove_nth k (pending this)\<rparr>) False"

text \<open>
  The end of the k-th suspended call when \<^verbatim>\<open>callChatAPI\<close> returns the reply's object:
  \<^verbatim>\<open>
          if (response.success) {
              this.addMessage('assistant', response.message, {...});
              if (response.session_id && response.session_id !== this.sessionId) {
                  this.sessionId = response.session_id;
                  this.updateSessionDisplay();
              }
          } else {
              this.addErrorMessage(response.error || 'An unknown error occurred');
          }
      } catch (error) { ... } finally {
          this.setProcessing(false);
      }
  \<close>
\<close>

definition on_response :: "ChatInterface \<Rightarrow> nat \<Rightarrow> chat_response \<Rightarrow> ChatInterface" where
  "on_response this k response =
     (let this1 =
        (if response_success response then
           (let this' = addMessage this (js ''assistant'') (response_message response) in
            case response_session_id response of
              None \<Rightarrow> this'
            | Some sid \<Rightarrow>
                if sid \<noteq> [] \<and> sid \<noteq> sessionId this' then this'\<lparr>sessionId := sid\<rparr> else this')
         else
           addErrorMessage this
             (case response_error response of
                None \<Rightarrow> js ''An unknown error occurred''
              | Some err \<Rightarrow> if err = [] then js ''An unknown error occurred'' else err))
      in setProcessing (this1\<lparr>pending := remove_nth k (pending this1)\<rparr>) False)"

text \<open>
  The promise of \<^verbatim>\<open>fetch\<close> of the k-th suspended call settles. A rejection is thrown
  into \<^verbatim>\<open>sendMessage\<close>; otherwise \<^verbatim>\<open>callChatAPI\<close> goes on to read the body:
  \<^verbatim>\<open>
      if (!response.ok) {
          const errorData = await response.json().catch(() => ({}));
          throw new Error(errorData.error || `HTTP ${response.status}: ${response.statusText}`);
      }
      return await response.json();
  \<close>
\<close>

definition fetchSettled :: "ChatInterface \<Rightarrow> nat \<Rightarrow> fetch_outcome \<Rightarrow> ChatInterface" where
  "fetchSettled this k out =
     (if k < length (pending this) \<and> pending this ! k = AwaitFetch then
        (case out of
           NetworkError \<Rightarrow> on_catch this k
         | HttpResponse ok \<Rightarrow> this\<lparr>pending := (pending this)[k := AwaitBody ok]\<rparr>)
      else this)"

text \<open>
  The promise of \<^verbatim>\<open>response.json()\<close> of the k-th suspended call settles: when
  \<^verbatim>\<open>response.ok\<close> was false \<^verbatim>\<open>callChatAPI\<close> throws, whatever the body.
\<close>

definition bodySettled :: "ChatInterface \<Rightarrow> nat \<Rightarrow> body_outcome \<Rightarrow> ChatInterface" where
  "bodySettled this k out =
     (if k < length (pending this) then
        (case pending this ! k of
           AwaitFetch \<Rightarrow> this
         | AwaitBody ok \<Rightarrow>
             if \<not> ok then on_catch this k
             else (case out of ParseError \<Rightarrow> on_catch this k
                   | Json response \<Rightarrow> on_response this k response))
      else this)"

text \<open>
  What can happen to an instance, one event at a time (JavaScript runs each to
  completion): the user edits the input, \<^verbatim>\<open>sendMessage\<close> is called (by the form's
  submit handler or by Ctrl+Enter), or a promise of a suspended call settles. An event
  for a call that is not suspended at that point does nothing.
\<close>

datatype ui_event =
  Input jsstring | SendMessage | FetchSettled nat fetch_outcome | BodySettled nat body_outcome

fun step :: "ChatInterface \<Rightarrow> ui_event \<Rightarrow> ChatInterface" where
  "step this (Input v) = this\<lparr>messageInput_value := v\<rparr>"
| "step this SendMessage = sendMessage this"
| "step this (FetchSettled k out) = fetchSettled this k out"
| "step this (BodySettled k out) = bodySettled this k out"

definition run :: "ChatInterface \<Rightarrow> ui_event list \<Rightarrow> ChatInterface" where
  "run this evs = foldl step this evs"


section \<open>Workflow engine\<close>

text \<open>
  The engine of sections 3 and 4.1 of the specification (\<^verbatim>\<open>processTask\<close>, its session
  state and its routing) is not part of the source, which holds the coordinator's
  \<^verbatim>\<open>process_task\<close> calling \<^verbatim>\<open>_analyze_delegation_need\<close> and \<^verbatim>\<open>_delegate_task\<close> without
  their bodies, and the configuration above. The definitions of this section follow the
  specification's words.
\<close>

text \<open>Modelled from the spec: the error taxonomy of section 7; the engine that raises
  them is missing from the source.\<close>

datatype error_kind =
  InvalidInputError | IterationLimitExceeded | CircuitOpenError | BackendTimeout
  | BackendUnavailable | InternalError

text \<open>Modelled from the spec: an entry of \<^verbatim>\<open>messageHistory\<close>,
  \<^verbatim>\<open>{role, content, workerId?, timestamp}\<close> (section 3); the session model is missing
  from the source.\<close>

record SessionMessage =
  role :: string
  content :: string
  workerId :: "string option"
  timestamp :: int

text \<open>Modelled from the spec: \<^verbatim>\<open>AgentState\<close> (section 3), per session and worker:
  \<^verbatim>\<open>workerId\<close> (here \<open>agentWorkerId\<close>), \<^verbatim>\<open>localContext\<close>, \<^verbatim>\<open>lastAction\<close> (nullable),
  \<^verbatim>\<open>errorCount\<close>; missing from the source.\<close>

record AgentState =
  agentWorkerId :: string
  localContext :: "string \<rightharpoonup> string"
  lastAction :: "string option"
  errorCount :: nat

text \<open>Modelled from the spec: the session (\<^verbatim>\<open>WorkflowState\<close> of section 3) with
  \<^verbatim>\<open>iterationCount\<close>, which the source's \<^verbatim>\<open>WorkflowState\<close> does not have. \<^verbatim>\<open>sessionId\<close>
  and \<^verbatim>\<open>messageHistory\<close> carry a prime: the web client has fields of these names.\<close>

record Session =
  sessionId' :: string
  createdAt :: int
  lastActivityAt :: int
  messageHistory' :: "SessionMessage list"
  globalContext :: "string \<rightharpoonup> string"
  agentStates :: "string \<rightharpoonup> AgentState"
  iterationCount :: nat

text \<open>Modelled from the spec: the answer of the Delegation Classifier (section 4.3),
  \<^verbatim>\<open>{needsDelegation, targetWorker: id|null, confidence, reasoning}\<close>; the source has only
  the prompt that asks for it.\<close>

record DelegationDecision =
  needsDelegation :: bool
  targetWorker :: "string option"
  confidence :: real
  reasoning :: string

text \<open>Modelled from the spec: a worker of the Capability Registry (section 4.2), with
  \<^verbatim>\<open>canHandle(task, context)\<close> and \<^verbatim>\<open>capabilities()\<close>; \<^verbatim>\<open>process\<close> is run through
  \<open>execute\<close> below. The registry is missing from the source.\<close>

record Worker =
  canHandle :: "string \<Rightarrow> (string \<rightharpoonup> string) \<Rightarrow> bool"
  capabilities :: "string list"

text \<open>Modelled from the spec: what an engine is configured with: the maximum of
  \<^verbatim>\<open>iterationCount\<close> (default 10), the confidence floor, the id of the coordinator
  worker and the registry (\<^verbatim>\<open>get(workerId) \<rightarrow> Worker|absent\<close>); missing from the source.\<close>

record Engine =
  maxIterations :: int
  confidenceFloor :: real
  coordinator :: string
  registry :: "string \<rightharpoonup> Worker"


text \<open>Modelled from the spec: what one call of \<^verbatim>\<open>processTask\<close> meets outside the
  engine: the clock, the classifier's validated answer for a task and a context
  (section 4.3), which workers' circuit breakers are OPEN, and the outcome of running
  \<^verbatim>\<open>worker.process(task, context)\<close> under the breaker, the timeout and the retry policy
  (steps 7 and 8 of section 4.1): the response text, or the kind of the failure that
  remains when the retries are exhausted. The backends are outside the source.\<close>

record TaskEnv =
  clock :: int
  classify :: "string \<Rightarrow> (string \<rightharpoonup> string) \<Rightarrow> DelegationDecision"
  circuitOpen :: "string \<Rightarrow> bool"
  execute :: "string \<Rightarrow> string \<Rightarrow> error_kind + string"

text \<open>Modelled from the spec: the structured result of \<^verbatim>\<open>processTask\<close>
  (sections 4.1 and 7): success with the response text and the worker's id, or a failure
  with its kind; the engine is missing from the source.\<close>

datatype task_result = Success string string | Failure error_kind

text \<open>Modelled from the spec: what a call of \<^verbatim>\<open>processTask\<close> leaves: its result, the
  workers whose \<^verbatim>\<open>process\<close> was invoked, and the Session Store (section 2: one session
  per session id); the engine is missing from the source.\<close>

record TaskOutcome =
  taskResult :: task_result
  dispatched :: "string list"
  sessions :: "string \<rightharpoonup> Session"

text \<open>Modelled from the spec: step 1 of section 4.1, the session created on a miss; the
  engine is missing from the source.\<close>

definition newSession :: "string \<Rightarrow> int \<Rightarrow> Session" where
  "newSession sid now =
     \<lparr>sessionId' = sid, createdAt = now, lastActivityAt = now, messageHistory' = [],
      globalContext = Map.empty, agentStates = Map.empty, iterationCount = 0\<rparr>"

text \<open>Modelled from the spec: step 5 of section 4.1, missing from the source. "If
  classifier proposes a worker with confidence \<ge> floor and that worker is registered and
  healthy (circuit not OPEN), dispatch to it; otherwise dispatch to the designated
  default/coordinator worker."\<close>

definition selectWorker :: "Engine \<Rightarrow> (string \<Rightarrow> bool) \<Rightarrow> DelegationDecision \<Rightarrow> string" where
  "selectWorker engine breakerOpen decision =
     (case targetWorker decision of
        None \<Rightarrow> coordinator engine
      | Some w \<Rightarrow>
          if needsDelegation decision \<and> confidence decision \<ge> confidenceFloor engine
             \<and> w \<in> dom (registry engine) \<and> \<not> breakerOpen w
          then w else coordinator engine)"

text \<open>Modelled from the spec: step 6 of section 4.1, missing from the source.
  "Dispatch = call \<^verbatim>\<open>worker.canHandle(task, context)\<close>; if false, fall back to the
  coordinator worker (single fallback hop)."\<close>

definition dispatchWorker :: "Engine \<Rightarrow> string \<Rightarrow> string \<Rightarrow> (string \<rightharpoonup> string) \<Rightarrow> string" where
  "dispatchWorker engine w task ctx =
     (case registry engine w of
        None \<Rightarrow> coordinator engine
      | Some worker \<Rightarrow> if canHandle worker task ctx then w else coordinator engine)"

text \<open>Modelled from the spec: section 3, \<^verbatim>\<open>AgentState\<close> is "created lazily on first
  delegation to that worker in a session"; missing from the source.\<close>

definition lazyAgentState :: "Session \<Rightarrow> string \<Rightarrow> Session" where
  "lazyAgentState st w =
     (case agentStates st w of
        Some a \<Rightarrow> st
      | None \<Rightarrow> st\<lparr>agentStates := (agentStates st)(w \<mapsto>
          \<lparr>agentWorkerId = w, localContext = Map.empty, lastAction = None, errorCount = 0\<rparr>)\<rparr>)"

text \<open>Modelled from the spec: \<^verbatim>\<open>processTask(sessionId, rawInput)\<close>, section 4.1,
  missing from the source. An empty input fails with \<^verbatim>\<open>InvalidInputError\<close> before
  anything else. Then: (1) the session is loaded, or created on a miss; (2) the input is
  appended as a \<^verbatim>\<open>user\<close> message; (3) \<^verbatim>\<open>iterationCount\<close> is incremented, and if it
  exceeds the maximum the call fails with \<^verbatim>\<open>IterationLimitExceeded\<close> and does not
  dispatch; (4) the classifier is asked; (5, 6) the worker is chosen; (7) it is executed,
  and on success its response is appended as an \<^verbatim>\<open>assistant\<close> message tagged with the
  worker; (8) a failure that survives the retries is returned as a structured error.
  The call mutates the session's entry of the store (section 4.1, side effects), so what
  steps 2 and 3 did stays when the call fails later.\<close>

definition processTask ::
  "Engine \<Rightarrow> TaskEnv \<Rightarrow> (string \<rightharpoonup> Session) \<Rightarrow> string \<Rightarrow> string \<Rightarrow> TaskOutcome" where
  "processTask engine env store sid rawInput =
     (if rawInput = [] then
        \<lparr>taskResult = Failure InvalidInputError, dispatched = [], sessions = store\<rparr>
      else
        (let st0 = (case store sid of None \<Rightarrow> newSession sid (clock env) | Some st \<Rightarrow> st);
             st1 = st0\<lparr>messageHistory' := messageHistory' st0 @
                       [\<lparr>role = ''user'', content = rawInput, workerId = None,
                         timestamp = clock env\<rparr>]\<rparr>;
             st2 = st1\<lparr>iterationCount := iterationCount st1 + 1, lastActivityAt := clock env\<rparr>
         in
           if int (iterationCount st2) > maxIterations engine then
             \<lparr>taskResult = Failure IterationLimitExceeded, dispatched = [],
              sessions = store(sid \<mapsto> st2)\<rparr>
           else
             (let decision = classify env rawInput (globalContext st2);
                  w = dispatchWorker engine (selectWorker engine (circuitOpen env) decision)
                        rawInput (globalContext st2);
                  st3 = lazyAgentState st2 w
              in case execute env w rawInput of
                   Inr responseText \<Rightarrow>
                     \<lparr>taskResult = Success responseText w, dispatched = [w],
                      sessions = store(sid \<mapsto> st3\<lparr>messageHistory' := messageHistory' st3 @
                        [\<lparr>role = ''assistant'', content = responseText, workerId = Some w,
                          timestamp = clock env\<rparr>]\<rparr>)\<rparr>
                 | Inl err \<Rightarrow>
                     \<lparr>taskResult = Failure err, dispatched = [w], sessions = store(sid \<mapsto> st3)\<rparr>)))"

fun succeeded :: "task_result \<Rightarrow> bool" where
  "succeeded (Success responseText w) = True"
| "succeeded (Failure err) = False"

text \<open>Modelled from the spec: the calls of \<^verbatim>\<open>processTask\<close> for one session, one after
  the other (section 5: tasks of a session are processed strictly sequentially); it
  returns their results in order and the store after the last.\<close>

fun processTasks ::
  "Engine \<Rightarrow> (string \<rightharpoonup> Session) \<Rightarrow> string \<Rightarrow> (TaskEnv \<times> string) list
     \<Rightarrow> task_result list \<times> (string \<rightharpoonup> Session)" where
  "processTasks engine store sid [] = ([], store)"
| "processTasks engine store sid ((env, rawInput) # rest) =
     (let out = processTask engine env store sid rawInput;
          (results, store') = processTasks engine (sessions out) sid rest
      in (taskResult out # results, store'))"

text \<open>The \<^verbatim>\<open>iterationCount\<close> of a session in the store; a session that does not exist
  yet has processed no task.\<close>

definition iterationCountOf :: "(string \<rightharpoonup> Session) \<Rightarrow> string \<Rightarrow> nat" where
  "iterationCountOf store sid = (case store sid of None \<Rightarrow> 0 | Some st \<Rightarrow> iterationCount st)"

text \<open>An engine with two registered workers, the coordinator and the calendar agent,
  and an environment in which the classifier proposes the calendar agent with a given
  confidence and every execution succeeds; used as concrete inputs.\<close>

definition demoEngine :: "int \<Rightarrow> real \<Rightarrow> Engine" where
  "demoEngine maxIter floor' =
     \<lparr>maxIterations = maxIter, confidenceFloor = floor', coordinator = ''personal_assistant'',
      registry = [''personal_assistant'' \<mapsto> \<lparr>canHandle = (\<lambda>task ctx. True), capabilities = []\<rparr>,
                  ''calendar_agent'' \<mapsto> \<lparr>canHandle = (\<lambda>task ctx. True), capabilities = []\<rparr>]\<rparr>"

definition demoEnv :: "real \<Rightarrow> TaskEnv" where
  "demoEnv c =
     \<lparr>clock = 0,
      classify = (\<lambda>task ctx. \<lparr>needsDelegation = True, targetWorker = Some ''calendar_agent'',
                               confidence = c, reasoning = ''scheduling''\<rparr>),
      circuitOpen = (\<lambda>w. False),
      execute = (\<lambda>w task. Inr ''done'')\<rparr>"


section \<open>Theorems: conflict detection\<close>

text \<open>
  C3, as stated, fails: the claim says that a zero-duration interval never conflicts with
  any interval. A zero-duration candidate [5, 5) lies strictly inside the existing event
  [0, 10); both \<^verbatim>\<open>conflicts_with\<close> and \<^verbatim>\<open>_check_conflicts\<close> report the conflict.
\<close>

theorem C3_zero_duration_counterexample:
  "conflicts_with (interval_event 0 10) 5 5
   \<and> check_conflicts [interval_event 0 10] 5 5 = [interval_event 0 10]"
  by (simp add: conflicts_with_def check_conflicts_def interval_event_def)

text \<open>
  C3 (amended): for every existing event and candidate interval, the conflict check
  reports a conflict exactly when existing.start < candidate.end and
  existing.end > candidate.start; this holds for the method \<^verbatim>\<open>conflicts_with\<close> and for
  the query \<^verbatim>\<open>_check_conflicts\<close>, which returns exactly the stored events in conflict.
  Consequently two intervals that merely touch at a boundary never conflict, and a
  zero-duration interval conflicts with an interval exactly when it lies strictly inside
  it (so it never conflicts with an interval at whose boundary it lies, nor with another
  zero-duration interval).
\<close>

theorem C3_conflict_half_open:
  "(conflicts_with ev s e \<longleftrightarrow> start_time ev < e \<and> end_time ev > s)
   \<and> set (check_conflicts evs s e) = {x \<in> set evs. start_time x < e \<and> end_time x > s}
   \<and> set (check_conflicts evs s e) = {x \<in> set evs. conflicts_with x s e}
   \<and> \<not> conflicts_with ev (end_time ev) e
   \<and> \<not> conflicts_with ev s (start_time ev)
   \<and> (conflicts_with ev t t \<longleftrightarrow> start_time ev < t \<and> t < end_time ev)
   \<and> (conflicts_with (interval_event t t) s e \<longleftrightarrow> s < t \<and> t < e)
   \<and> \<not> conflicts_with (interval_event t t) t e
   \<and> \<not> conflicts_with (interval_event t t) s t"
  by (auto simp add: conflicts_with_def check_conflicts_def interval_event_def)

text \<open>
  C7: conflict detection is symmetric. Event A is reported as conflicting with the
  interval of event B if and only if B is reported as conflicting with the interval of A;
  the same holds for the query \<^verbatim>\<open>_check_conflicts\<close> run on a table holding just the
  other event.
\<close>

theorem C7_conflict_symmetric:
  "(conflicts_with a (start_time b) (end_time b) \<longleftrightarrow> conflicts_with b (start_time a) (end_time a))
   \<and> (check_conflicts [a] (start_time b) (end_time b) = [a]
        \<longleftrightarrow> check_conflicts [b] (start_time a) (end_time a) = [b])"
  by (auto simp add: conflicts_with_def check_conflicts_def)


section \<open>Theorems: session state\<close>

text \<open>
  C8: for every WorkflowState and every call \<^verbatim>\<open>add_message(role, content, agent_type)\<close>,
  exactly one entry is appended at the end of \<^verbatim>\<open>message_history\<close> (the dictionary with
  the given role, content and agent type, and the clock's reading as timestamp), all
  entries present before are unchanged and in their original order,
  \<^verbatim>\<open>last_activity\<close> is set to the clock's (second) reading, and \<^verbatim>\<open>session_id\<close>,
  \<^verbatim>\<open>created_at\<close>, \<^verbatim>\<open>agent_states\<close> and \<^verbatim>\<open>context\<close> are unchanged.
\<close>

theorem C8_add_message_frame:
  "message_history (add_message self r c a t1 t2)
     = message_history self @ [new_message r c a t1]
   \<and> length (message_history (add_message self r c a t1 t2))
       = Suc (length (message_history self))
   \<and> take (length (message_history self))
        (message_history (add_message self r c a t1 t2)) = message_history self
   \<and> last (message_history (add_message self r c a t1 t2)) ''role'' = Some (Str r)
   \<and> last (message_history (add_message self r c a t1 t2)) ''content''
       = Some (Str c)
   \<and> last (message_history (add_message self r c a t1 t2)) ''agent_type''
       = Some (str_or_none a)
   \<and> last (message_history (add_message self r c a t1 t2)) ''timestamp''
       = Some (Datetime t1)
   \<and> last_activity (add_message self r c a t1 t2) = t2
   \<and> session_id (add_message self r c a t1 t2) = session_id self
   \<and> created_at (add_message self r c a t1 t2) = created_at self
   \<and> agent_states (add_message self r c a t1 t2) = agent_states self
   \<and> context' (add_message self r c a t1 t2) = context' self"
  by (simp add: add_message_def new_message_def)


section \<open>Theorems: retry\<close>

lemma range_3: "range' 3 = [0, 1, 2]"
  by (simp add: range'_def upt_rec numeral_3_eq_3)

text \<open>
  C6: for every operation, \<^verbatim>\<open>with_retry\<close> with \<^verbatim>\<open>max_retries = 3\<close> invokes the
  operation at most 3 times, sleeps 2^attempt seconds between consecutive attempts
  (1 second after the first failure, 2 seconds after the second, nothing after the
  third), returns the result of the first successful attempt without invoking the
  operation again, and when all three attempts fail re-raises the exception of the third.
\<close>

theorem C6_with_retry_three:
  "(operation 0 = Inr r \<longrightarrow>
      with_retry 3 operation = \<lparr>result = Returned r, trace = [Invoke 0]\<rparr>)
   \<and> (operation 0 = Inl e0 \<and> operation 1 = Inr r \<longrightarrow>
      with_retry 3 operation
        = \<lparr>result = Returned r, trace = [Invoke 0, Sleep (2 ^ 0), Invoke 1]\<rparr>)
   \<and> (operation 0 = Inl e0 \<and> operation 1 = Inl e1 \<and> operation 2 = Inr r \<longrightarrow>
      with_retry 3 operation
        = \<lparr>result = Returned r,
           trace = [Invoke 0, Sleep (2 ^ 0), Invoke 1, Sleep (2 ^ 1), Invoke 2]\<rparr>)
   \<and> (operation 0 = Inl e0 \<and> operation 1 = Inl e1 \<and> operation 2 = Inl e2 \<longrightarrow>
      with_retry 3 operation
        = \<lparr>result = Raised e2,
           trace = [Invoke 0, Sleep (2 ^ 0), Invoke 1, Sleep (2 ^ 1), Invoke 2]\<rparr>)
   \<and> invocations (trace (with_retry 3 operation)) \<le> 3"
proof -
  have two: "Suc (Suc 0) = 2" by simp
  show ?thesis
    unfolding with_retry_def range_3
    by (auto simp add: invocations_def two split: sum.splits)
qed

theorem C6_with_retry_three_witness:
  "with_retry 3 (\<lambda>n. Inr (n + 40) :: string + nat) = \<lparr>result = Returned 40, trace = [Invoke 0]\<rparr>
   \<and> with_retry 3 (\<lambda>n. if n < 1 then Inl ''timeout'' else Inr (n + 40) :: string + nat)
       = \<lparr>result = Returned 41, trace = [Invoke 0, Sleep 1, Invoke 1]\<rparr>
   \<and> with_retry 3 (\<lambda>n. if n < 2 then Inl ''timeout'' else Inr (n + 40) :: string + nat)
       = \<lparr>result = Returned 42, trace = [Invoke 0, Sleep 1, Invoke 1, Sleep 2, Invoke 2]\<rparr>
   \<and> with_retry 3 (\<lambda>n. if n < 2 then Inl ''timeout'' else Inl ''unavailable'' :: string + nat)
       = \<lparr>result = Raised ''unavailable'',
          trace = [Invoke 0, Sleep 1, Invoke 1, Sleep 2, Invoke 2]\<rparr>"
  using C6_with_retry_three [of "\<lambda>n. Inr (n + 40) :: string + nat" 40]
    C6_with_retry_three [of "\<lambda>n. if n < 1 then Inl ''timeout'' else Inr (n + 40) :: string + nat"
      41 "''timeout''"]
    C6_with_retry_three [of "\<lambda>n. if n < 2 then Inl ''timeout'' else Inr (n + 40) :: string + nat"
      42 "''timeout''" "''timeout''"]
    C6_with_retry_three [of "\<lambda>n. if n < 2 then Inl ''timeout'' else Inl ''unavailable'' :: string + nat"
      _ "''timeout''" "''timeout''" "''unavailable''"]
  by simp


section \<open>Theorems: circuit breaker\<close>

lemma call_keeps_config:
  "failure_threshold (breaker (call self c)) = failure_threshold self
   \<and> timeout (breaker (call self c)) = timeout self"
  by (cases "outcome c")
     (auto simp add: call_def gate_def attempt_def Let_def split: option.splits)

text \<open>
  Between calls a breaker is never HALF_OPEN, and an OPEN breaker has reached its
  threshold and recorded the time of a failure: one call keeps this.
\<close>

lemma call_keeps_inv:
  assumes "state self \<noteq> HALF_OPEN"
    and "state self = OPEN \<longrightarrow>
           failure_threshold self \<le> failure_count self \<and> last_failure_time self \<noteq> None"
  shows "state (breaker (call self c)) \<noteq> HALF_OPEN
    \<and> (state (breaker (call self c)) = OPEN \<longrightarrow>
          failure_threshold self \<le> failure_count (breaker (call self c))
          \<and> last_failure_time (breaker (call self c)) \<noteq> None)"
  using assms
  by (cases "outcome c"; cases "state self")
     (auto simp add: call_def gate_def attempt_def Let_def split: option.splits)

lemma calls_inv:
  assumes "state self \<noteq> HALF_OPEN"
    and "state self = OPEN \<longrightarrow>
           failure_threshold self \<le> failure_count self \<and> last_failure_time self \<noteq> None"
  shows "failure_threshold (calls self cs) = failure_threshold self
    \<and> timeout (calls self cs) = timeout self
    \<and> state (calls self cs) \<noteq> HALF_OPEN
    \<and> (state (calls self cs) = OPEN \<longrightarrow>
          failure_threshold self \<le> failure_count (calls self cs)
          \<and> last_failure_time (calls self cs) \<noteq> None)"
  using assms
proof (induction cs arbitrary: self)
  case Nil
  then show ?case by simp
next
  case (Cons c cs)
  have k: "failure_threshold (breaker (call self c)) = failure_threshold self"
          "timeout (breaker (call self c)) = timeout self"
    using call_keeps_config [of self c] by simp_all
  from call_keeps_inv [OF Cons.prems, of c] k
  have "state (breaker (call self c)) \<noteq> HALF_OPEN"
    and "state (breaker (call self c)) = OPEN \<longrightarrow>
          failure_threshold (breaker (call self c)) \<le> failure_count (breaker (call self c))
          \<and> last_failure_time (breaker (call self c)) \<noteq> None"
    by simp_all
  from Cons.IH [OF this] k show ?case by simp
qed

lemma reachable_inv:
  "failure_threshold (calls (CircuitBreaker_init th to) cs) = th
    \<and> timeout (calls (CircuitBreaker_init th to) cs) = to
    \<and> state (calls (CircuitBreaker_init th to) cs) \<noteq> HALF_OPEN
    \<and> (state (calls (CircuitBreaker_init th to) cs) = OPEN \<longrightarrow>
          th \<le> failure_count (calls (CircuitBreaker_init th to) cs)
          \<and> last_failure_time (calls (CircuitBreaker_init th to) cs) \<noteq> None)"
  using calls_inv [of "CircuitBreaker_init th to" cs]
  by (simp add: CircuitBreaker_init_def)

text \<open>
  C4: let \<open>cb\<close> be the breaker after any sequence \<open>cs\<close> of calls through a new breaker
  with threshold \<open>th\<close> and reset timeout \<open>to\<close>, and let \<open>c\<close> be the next call.
  \<^item> CLOSED to OPEN: if \<open>cb\<close> is CLOSED and the call fails, bringing the failure count to
    the threshold or beyond, the breaker is OPEN afterwards.
  \<^item> OPEN to HALF_OPEN: if \<open>cb\<close> is OPEN and more than the reset timeout has elapsed
    since the last failure, the check at the start of the call sets the breaker
    HALF_OPEN and the operation is invoked.
  \<^item> HALF_OPEN to CLOSED: if that operation succeeds, the breaker is CLOSED afterwards
    with the failure count reset to 0, and the call returns the operation's result.
  \<^item> HALF_OPEN to OPEN: if that operation fails, the breaker is OPEN afterwards with the
    time of the last failure set to the clock's reading in the handler, and the call
    re-raises the operation's exception.
\<close>

theorem C4_breaker_transitions:
  assumes cb: "cb = calls (CircuitBreaker_init th to) cs"
  shows "(state cb = CLOSED \<and> outcome c = Inl e \<and> failure_count cb + 1 \<ge> th \<longrightarrow>
            state (breaker (call cb c)) = OPEN)
    \<and> (state cb = OPEN \<and> last_failure_time cb = Some t \<and> now_check c - t > to \<longrightarrow>
            gate cb (now_check c) = Inr (cb\<lparr>state := HALF_OPEN\<rparr>) \<and> invoked (call cb c))
    \<and> (state cb = OPEN \<and> last_failure_time cb = Some t \<and> now_check c - t > to
          \<and> outcome c = Inr r \<longrightarrow>
            attempt (cb\<lparr>state := HALF_OPEN\<rparr>) (outcome c) (now_fail c)
              = (Inr r, cb\<lparr>state := CLOSED, failure_count := 0\<rparr>)
            \<and> call cb c = \<lparr>returned = Inr r, invoked = True,
                             breaker = cb\<lparr>state := CLOSED, failure_count := 0\<rparr>\<rparr>)
    \<and> (state cb = OPEN \<and> last_failure_time cb = Some t \<and> now_check c - t > to
          \<and> outcome c = Inl e \<longrightarrow>
            attempt (cb\<lparr>state := HALF_OPEN\<rparr>) (outcome c) (now_fail c)
              = (Inl (OperationError e),
                 cb\<lparr>state := OPEN, failure_count := failure_count cb + 1,
                    last_failure_time := Some (now_fail c)\<rparr>)
            \<and> call cb c = \<lparr>returned = Inl (OperationError e), invoked = True,
                             breaker = cb\<lparr>state := OPEN, failure_count := failure_count cb + 1,
                                         last_failure_time := Some (now_fail c)\<rparr>\<rparr>)"
proof -
  from reachable_inv [of th to cs] cb
  have th: "failure_threshold cb = th" and to: "timeout cb = to"
    and op: "state cb = OPEN \<longrightarrow> th \<le> failure_count cb"
    by simp_all
  show ?thesis
    using th to op
    by (cases "outcome c") (auto simp add: call_def gate_def attempt_def Let_def)
qed

theorem C4_breaker_transitions_witness:
  "state (calls (CircuitBreaker_init 2 60)
            [\<lparr>now_check = 0, outcome = Inl ''down'' :: string + nat, now_fail = 0\<rparr>]) = CLOSED
   \<and> state (breaker (call (calls (CircuitBreaker_init 2 60)
            [\<lparr>now_check = 0, outcome = Inl ''down'' :: string + nat, now_fail = 0\<rparr>])
          \<lparr>now_check = 1, outcome = Inl ''down'' :: string + nat, now_fail = 1\<rparr>)) = OPEN
   \<and> state (calls (CircuitBreaker_init 2 60)
            [\<lparr>now_check = 0, outcome = Inl ''down'' :: string + nat, now_fail = 0\<rparr>,
             \<lparr>now_check = 1, outcome = Inl ''down'', now_fail = 1\<rparr>]) = OPEN
   \<and> call (calls (CircuitBreaker_init 2 60)
            [\<lparr>now_check = 0, outcome = Inl ''down'' :: string + nat, now_fail = 0\<rparr>,
             \<lparr>now_check = 1, outcome = Inl ''down'', now_fail = 1\<rparr>])
          \<lparr>now_check = 100, outcome = Inr 7 :: string + nat, now_fail = 100\<rparr>
       = \<lparr>returned = Inr 7, invoked = True,
          breaker = \<lparr>failure_threshold = 2, timeout = 60, failure_count = 0,
                     last_failure_time = Some 1, state = CLOSED\<rparr>\<rparr>
   \<and> call (calls (CircuitBreaker_init 2 60)
            [\<lparr>now_check = 0, outcome = Inl ''down'' :: string + nat, now_fail = 0\<rparr>,
             \<lparr>now_check = 1, outcome = Inl ''down'', now_fail = 1\<rparr>])
          \<lparr>now_check = 100, outcome = Inl ''down'' :: string + nat, now_fail = 101\<rparr>
       = \<lparr>returned = Inl (OperationError ''down''), invoked = True,
          breaker = \<lparr>failure_threshold = 2, timeout = 60, failure_count = 3,
                     last_failure_time = Some 101, state = OPEN\<rparr>\<rparr>"
  using
    C4_breaker_transitions [OF refl, of 2 60
      "[\<lparr>now_check = 0, outcome = Inl ''down'' :: string + nat, now_fail = 0\<rparr>]"
      "\<lparr>now_check = 1, outcome = Inl ''down'' :: string + nat, now_fail = 1\<rparr>" "''down''"]
    C4_breaker_transitions [OF refl, of 2 60
      "[\<lparr>now_check = 0, outcome = Inl ''down'' :: string + nat, now_fail = 0\<rparr>,
        \<lparr>now_check = 1, outcome = Inl ''down'', now_fail = 1\<rparr>]"
      "\<lparr>now_check = 100, outcome = Inr 7 :: string + nat, now_fail = 100\<rparr>" _ 1 7]
    C4_breaker_transitions [OF refl, of 2 60
      "[\<lparr>now_check = 0, outcome = Inl ''down'' :: string + nat, now_fail = 0\<rparr>,
        \<lparr>now_check = 1, outcome = Inl ''down'', now_fail = 1\<rparr>]"
      "\<lparr>now_check = 100, outcome = Inl ''down'' :: string + nat, now_fail = 101\<rparr>" "''down''" 1]
  by (simp add: CircuitBreaker_init_def call_def gate_def attempt_def)

text \<open>
  C5: whenever a breaker is OPEN and less than its reset timeout has elapsed since the
  last failure, a call raises \<^verbatim>\<open>Exception("Circuit breaker is OPEN")\<close> at once: the
  operation is not invoked (whatever it would have done), and the breaker is unchanged.
\<close>

theorem C5_open_fails_fast:
  assumes "state self = OPEN" and "last_failure_time self = Some t"
    and "now_check c - t < timeout self"
  shows "call self c
     = \<lparr>returned = Inl (Exception ''Circuit breaker is OPEN''), invoked = False, breaker = self\<rparr>"
  using assms by (simp add: call_def gate_def)


theorem C5_open_fails_fast_witness:
  "call \<lparr>failure_threshold = 5, timeout = 60, failure_count = 5,
         last_failure_time = Some 1000, state = OPEN\<rparr>
        \<lparr>now_check = 1030, outcome = Inr 7 :: string + nat, now_fail = 1030\<rparr>
     = \<lparr>returned = Inl (Exception ''Circuit breaker is OPEN''), invoked = False,
        breaker = \<lparr>failure_threshold = 5, timeout = 60, failure_count = 5,
                   last_failure_time = Some 1000, state = OPEN\<rparr>\<rparr>"
  using C5_open_fails_fast [of "\<lparr>failure_threshold = 5, timeout = 60, failure_count = 5,
         last_failure_time = Some 1000, state = OPEN\<rparr>" 1000
         "\<lparr>now_check = 1030, outcome = Inr 7 :: string + nat, now_fail = 1030\<rparr>"]
  by simp


section \<open>Theorems: agent selection\<close>

lemma scores_keys_acc:
  "fst ` set (foldl (\<lambda>scores (agent_type, agent).
              if can_handle agent task context
              then AList.update agent_type (f agent task context) scores
              else scores) acc agents)
     = fst ` set acc \<union> fst ` {p \<in> set agents. can_handle (snd p) task context}"
proof (induction agents arbitrary: acc)
  case Nil
  then show ?case by simp
next
  case (Cons x xs)
  obtain t a where x: "x = (t, a)" by (cases x)
  have split: "{p \<in> set ((t, a) # xs). can_handle (snd p) task context}
      = (if can_handle a task context then {(t, a)} else {})
        \<union> {p \<in> set xs. can_handle (snd p) task context}"
    by auto
  show ?case
    unfolding x split
    by (simp add: Cons.IH dom_update image_Un)
qed

lemma agent_scores_keys:
  "fst ` set (agent_scores f agents task context)
     = fst ` {p \<in> set agents. can_handle (snd p) task context}"
  unfolding agent_scores_def by (simp add: scores_keys_acc)

lemma foldl_max_mem:
  "foldl (\<lambda>best y. if key y > key best then y else best) b ys \<in> insert b (set ys)"
  by (induction ys arbitrary: b) auto

lemma max_by_mem: "max_by key xs = Inr y \<Longrightarrow> y \<in> set xs"
  using foldl_max_mem [of key "hd xs" "tl xs"] by (cases xs) auto

lemma max_by_nonempty: "xs \<noteq> [] \<Longrightarrow> \<exists>y. max_by key xs = Inr y"
  by (cases xs) auto

text \<open>
  C9: for every task and every context the coordinator's \<^verbatim>\<open>can_handle\<close> returns true;
  therefore, whenever the coordinator is registered (under its key
  \<^verbatim>\<open>'personal_assistant'\<close>), the scores collected by \<^verbatim>\<open>_select_best_agent\<close> are not
  empty, \<^verbatim>\<open>max\<close> does not raise \<^verbatim>\<open>ValueError\<close>, and the selection returns an agent.
\<close>

theorem C9_coordinator_always_candidate:
  "can_handle PersonalAssistantAgent task context
   \<and> (map_of agents ''personal_assistant'' = Some PersonalAssistantAgent \<longrightarrow>
        agent_scores calculate_agent_score agents task context \<noteq> []
        \<and> max_by snd (agent_scores calculate_agent_score agents task context) \<noteq> Inl ValueError
        \<and> (\<exists>agent. select_best_agent calculate_agent_score agents task context = Inr agent))"
proof -
  have pa: "can_handle PersonalAssistantAgent task context"
    by (simp add: PersonalAssistantAgent_def)
  {
    assume reg: "map_of agents ''personal_assistant'' = Some PersonalAssistantAgent"
    let ?scores = "agent_scores calculate_agent_score agents task context"
    from reg have "(''personal_assistant'', PersonalAssistantAgent) \<in> set agents"
      by (rule map_of_SomeD)
    with pa have "''personal_assistant'' \<in> fst ` {p \<in> set agents. can_handle (snd p) task context}"
      by force
    then have "''personal_assistant'' \<in> fst ` set ?scores"
      by (simp only: agent_scores_keys)
    then have ne: "?scores \<noteq> []" by auto
    then obtain best where best: "max_by snd ?scores = Inr best"
      using max_by_nonempty by blast
    then have "best \<in> set ?scores" by (rule max_by_mem)
    then have "fst best \<in> fst ` set ?scores" by simp
    then have "fst best \<in> fst ` set agents"
      by (auto simp only: agent_scores_keys)
    then obtain agent where "map_of agents (fst best) = Some agent"
      by (metis domD dom_map_of_conv_image_fst)
    with best have "select_best_agent calculate_agent_score agents task context = Inr agent"
      by (cases best) (simp add: select_best_agent_def)
    with ne best have "?scores \<noteq> []
        \<and> max_by snd ?scores \<noteq> Inl ValueError
        \<and> (\<exists>agent. select_best_agent calculate_agent_score agents task context = Inr agent)"
      by auto
  }
  with pa show ?thesis by blast
qed

theorem C9_coordinator_always_candidate_witness:
  "map_of [(''search_agent'', \<lparr>agent_type = ''search_agent'', can_handle = (\<lambda>task context. False)\<rparr>),
           (''personal_assistant'', PersonalAssistantAgent :: unit BaseAgent)]
      ''personal_assistant'' = Some PersonalAssistantAgent
   \<and> agent_scores (\<lambda>agent task context. 1 :: nat)
        [(''search_agent'', \<lparr>agent_type = ''search_agent'', can_handle = (\<lambda>task context. False)\<rparr>),
         (''personal_assistant'', PersonalAssistantAgent :: unit BaseAgent)] ''hello'' ()
       = [(''personal_assistant'', 1)]
   \<and> select_best_agent (\<lambda>agent task context. 1 :: nat)
        [(''search_agent'', \<lparr>agent_type = ''search_agent'', can_handle = (\<lambda>task context. False)\<rparr>),
         (''personal_assistant'', PersonalAssistantAgent :: unit BaseAgent)] ''hello'' ()
       = Inr PersonalAssistantAgent"
  using C9_coordinator_always_candidate [of "''hello''" "()"
      "[(''search_agent'', \<lparr>agent_type = ''search_agent'', can_handle = (\<lambda>task context. False)\<rparr>),
        (''personal_assistant'', PersonalAssistantAgent :: unit BaseAgent)]"
      "\<lambda>agent task context. 1 :: nat"]
  by (simp add: agent_scores_def select_best_agent_def PersonalAssistantAgent_def)


section \<open>Theorems: web client\<close>

text \<open>
  While a call of \<^verbatim>\<open>sendMessage\<close> is suspended \<^verbatim>\<open>isProcessing\<close> is true, and there is
  at most one suspended call: every event keeps this.
\<close>

lemma step_inv:
  assumes "isProcessing this \<longleftrightarrow> pending this \<noteq> []" and "length (pending this) \<le> 1"
  shows "(isProcessing (step this ev) \<longleftrightarrow> pending (step this ev) \<noteq> [])
         \<and> length (pending (step this ev)) \<le> 1"
proof (cases ev)
  case (Input v)
  with assms show ?thesis by simp
next
  case SendMessage
  with assms show ?thesis
    by (auto simp add: sendMessage_def Let_def setProcessing_def addMessage_def)
next
  case (FetchSettled k out)
  with assms show ?thesis
    by (cases "pending this"; cases out)
       (auto simp add: fetchSettled_def on_catch_def setProcessing_def addErrorMessage_def
          remove_nth_def)
next
  case (BodySettled k out)
  with assms show ?thesis
    by (cases "pending this"; cases out)
       (auto simp add: bodySettled_def on_catch_def on_response_def setProcessing_def
          addErrorMessage_def addMessage_def remove_nth_def Let_def
          split: phase.splits option.splits)
qed

lemma run_inv:
  assumes "isProcessing this \<longleftrightarrow> pending this \<noteq> []" and "length (pending this) \<le> 1"
  shows "(isProcessing (run this evs) \<longleftrightarrow> pending (run this evs) \<noteq> [])
         \<and> length (pending (run this evs)) \<le> 1"
  using assms unfolding run_def
proof (induction evs arbitrary: this)
  case Nil
  then show ?case by simp
next
  case (Cons ev evs)
  from step_inv [OF Cons.prems, of ev] Cons.IH [of "step this ev"]
  show ?case by simp
qed

text \<open>
  C10: \<^verbatim>\<open>sendMessage\<close> issues no request to \<^verbatim>\<open>/api/chat\<close> (and changes nothing) when the
  trimmed input is empty or \<^verbatim>\<open>isProcessing\<close> is true; otherwise it sets
  \<^verbatim>\<open>isProcessing\<close> and issues one request with the trimmed input. After any sequence of
  events on a new instance, \<^verbatim>\<open>isProcessing\<close> is true exactly while a call of
  \<^verbatim>\<open>sendMessage\<close> has issued its request and has not yet handled the reply or the error,
  and there is at most one such call: at most one chat request is in flight at any time.
\<close>

theorem C10_single_request_in_flight:
  "(trim (messageInput_value this) = [] \<or> isProcessing this \<longrightarrow>
       sendMessage this = this \<and> requests (sendMessage this) = requests this
       \<and> pending (sendMessage this) = pending this)
   \<and> (trim (messageInput_value this) \<noteq> [] \<and> \<not> isProcessing this \<longrightarrow>
       isProcessing (sendMessage this)
       \<and> requests (sendMessage this)
           = requests this @ [(trim (messageInput_value this), sessionId this)]
       \<and> pending (sendMessage this) = pending this @ [AwaitFetch])
   \<and> (isProcessing (run (constructor sid input) evs)
         \<longleftrightarrow> pending (run (constructor sid input) evs) \<noteq> [])
   \<and> length (pending (run (constructor sid input) evs)) \<le> 1"
proof -
  have "(isProcessing (run (constructor sid input) evs)
         \<longleftrightarrow> pending (run (constructor sid input) evs) \<noteq> [])
   \<and> length (pending (run (constructor sid input) evs)) \<le> 1"
    by (rule run_inv) (simp_all add: constructor_def)
  then show ?thesis
    by (simp add: sendMessage_def Let_def setProcessing_def addMessage_def)
qed

theorem C10_single_request_in_flight_witness:
  "requests (sendMessage (constructor (js ''s1'') (js ''   ''))) = []
   \<and> requests (sendMessage (constructor (js ''s1'') (js '' hi ''))) = [(js ''hi'', js ''s1'')]
   \<and> isProcessing (sendMessage (constructor (js ''s1'') (js '' hi '')))
   \<and> requests (run (constructor (js ''s1'') (js '' hi ''))
                [SendMessage, Input (js ''again''), SendMessage])
       = [(js ''hi'', js ''s1'')]
   \<and> pending (run (constructor (js ''s1'') (js '' hi ''))
                [SendMessage, Input (js ''again''), SendMessage]) = [AwaitFetch]
   \<and> \<not> isProcessing (run (constructor (js ''s1'') (js '' hi ''))
                [SendMessage, FetchSettled 0 NetworkError])"
  using C10_single_request_in_flight [of "constructor (js ''s1'') (js ''   '')"]
    C10_single_request_in_flight [of "constructor (js ''s1'') (js '' hi '')" "js ''s1''"
      "js '' hi ''" "[SendMessage, Input (js ''again''), SendMessage]"]
    C10_single_request_in_flight [of "sendMessage (constructor (js ''s1'') (js '' hi ''))\<lparr>messageInput_value := js ''again''\<rparr>" "js ''s1''"
      "js '' hi ''" "[SendMessage, FetchSettled 0 NetworkError]"]
  by (simp add: run_def sendMessage_def constructor_def js_def trim_def is_white_space_def
        setProcessing_def addMessage_def addErrorMessage_def fetchSettled_def on_catch_def
        remove_nth_def Let_def)


section \<open>Theorems: workflow engine\<close>

lemma processTask_success_count:
  "succeeded (taskResult (processTask engine env store sid rawInput)) \<Longrightarrow>
     iterationCountOf (sessions (processTask engine env store sid rawInput)) sid
       = Suc (iterationCountOf store sid)"
  by (auto simp add: processTask_def Let_def iterationCountOf_def newSession_def lazyAgentState_def
        split: if_splits option.splits sum.splits)

lemma processTasks_all_success:
  "list_all succeeded (fst (processTasks engine store sid cs)) \<Longrightarrow>
     iterationCountOf (snd (processTasks engine store sid cs)) sid
       = iterationCountOf store sid + length cs"
proof (induction cs arbitrary: store)
  case Nil
  then show ?case by simp
next
  case (Cons c cs)
  obtain env rawInput where c: "c = (env, rawInput)" by (cases c)
  let ?out = "processTask engine env store sid rawInput"
  from Cons.prems have s1: "succeeded (taskResult ?out)"
    and rest: "list_all succeeded (fst (processTasks engine (sessions ?out) sid cs))"
    by (simp_all add: c Let_def split: prod.splits)
  from Cons.IH [OF rest] processTask_success_count [OF s1]
  show ?case by (auto simp add: c Let_def split: prod.splits)
qed

lemma processTask_limit:
  assumes "int (iterationCountOf store sid) \<ge> maxIterations engine"
  shows "\<not> succeeded (taskResult (processTask engine env store sid rawInput))
    \<and> dispatched (processTask engine env store sid rawInput) = []
    \<and> (rawInput \<noteq> [] \<longrightarrow>
         taskResult (processTask engine env store sid rawInput) = Failure IterationLimitExceeded)"
  using assms
  by (auto simp add: processTask_def Let_def iterationCountOf_def newSession_def
        split: option.splits)

text \<open>
  C1 (on the engine modelled from the specification): for a session that does not exist
  yet, after N calls of \<^verbatim>\<open>processTask\<close> that all succeed \<^verbatim>\<open>iterationCount\<close> equals N.
  Once \<^verbatim>\<open>iterationCount\<close> exceeds the configured maximum no call succeeds and no worker
  is invoked, and a call with a non-empty input is rejected with
  \<^verbatim>\<open>IterationLimitExceeded\<close>; the same holds for the call that follows N successful
  calls when N has reached the maximum (the 11th task for a maximum of 10). The default
  of \<^verbatim>\<open>MAX_AGENT_ITERATIONS\<close> is 10 in both configuration classes.
\<close>

theorem C1_iteration_limit:
  "(store sid = None \<and> list_all succeeded (fst (processTasks engine store sid cs)) \<longrightarrow>
      iterationCountOf (snd (processTasks engine store sid cs)) sid = length cs)
   \<and> (int (iterationCountOf store sid) > maxIterations engine \<longrightarrow>
        \<not> succeeded (taskResult (processTask engine env store sid rawInput))
        \<and> dispatched (processTask engine env store sid rawInput) = []
        \<and> (rawInput \<noteq> [] \<longrightarrow>
             taskResult (processTask engine env store sid rawInput)
               = Failure IterationLimitExceeded))
   \<and> (store sid = None \<and> list_all succeeded (fst (processTasks engine store sid cs))
        \<and> int (length cs) \<ge> maxIterations engine \<longrightarrow>
        \<not> succeeded (taskResult
             (processTask engine env (snd (processTasks engine store sid cs)) sid rawInput))
        \<and> dispatched
             (processTask engine env (snd (processTasks engine store sid cs)) sid rawInput) = []
        \<and> (rawInput \<noteq> [] \<longrightarrow>
             taskResult
               (processTask engine env (snd (processTasks engine store sid cs)) sid rawInput)
               = Failure IterationLimitExceeded))
   \<and> MAX_AGENT_ITERATIONS None = 10 \<and> Config_MAX_AGENT_ITERATIONS = 10"
proof -
  have fresh: "iterationCountOf store sid = 0" if "store sid = None"
    using that by (simp add: iterationCountOf_def)
  have a: "iterationCountOf (snd (processTasks engine store sid cs)) sid = length cs"
    if "store sid = None" "list_all succeeded (fst (processTasks engine store sid cs))"
    using processTasks_all_success [OF that(2)] fresh [OF that(1)] by simp
  have b: "\<not> succeeded (taskResult (processTask engine env st sid rawInput))
        \<and> dispatched (processTask engine env st sid rawInput) = []
        \<and> (rawInput \<noteq> [] \<longrightarrow>
             taskResult (processTask engine env st sid rawInput) = Failure IterationLimitExceeded)"
    if "int (iterationCountOf st sid) \<ge> maxIterations engine" for st
    using that by (rule processTask_limit)
  have c: "MAX_AGENT_ITERATIONS None = 10 \<and> Config_MAX_AGENT_ITERATIONS = 10"
    by (simp add: MAX_AGENT_ITERATIONS_def Config_MAX_AGENT_ITERATIONS_def)
  show ?thesis
    using a b [of store] b [of "snd (processTasks engine store sid cs)"] c
    by (metis order_less_imp_le)
qed

theorem C1_iteration_limit_witness:
  "list_all succeeded
     (fst (processTasks (demoEngine 2 0.7) Map.empty ''s1''
            [(demoEnv 0.9, ''first''), (demoEnv 0.9, ''second'')]))
   \<and> iterationCountOf
       (snd (processTasks (demoEngine 2 0.7) Map.empty ''s1''
              [(demoEnv 0.9, ''first''), (demoEnv 0.9, ''second'')])) ''s1'' = 2
   \<and> taskResult (processTask (demoEngine 2 0.7) (demoEnv 0.9)
        (snd (processTasks (demoEngine 2 0.7) Map.empty ''s1''
              [(demoEnv 0.9, ''first''), (demoEnv 0.9, ''second'')])) ''s1'' ''third'')
       = Failure IterationLimitExceeded
   \<and> dispatched (processTask (demoEngine 2 0.7) (demoEnv 0.9)
        (snd (processTasks (demoEngine 2 0.7) Map.empty ''s1''
              [(demoEnv 0.9, ''first''), (demoEnv 0.9, ''second'')])) ''s1'' ''third'') = []"
proof -
  have ok: "list_all succeeded
     (fst (processTasks (demoEngine 2 0.7) Map.empty ''s1''
            [(demoEnv 0.9, ''first''), (demoEnv 0.9, ''second'')]))"
    by (simp add: processTask_def demoEngine_def demoEnv_def newSession_def Let_def
        selectWorker_def dispatchWorker_def lazyAgentState_def)
  show ?thesis
    using ok C1_iteration_limit [of "Map.empty" "''s1''" "demoEngine 2 0.7"
      "[(demoEnv 0.9, ''first''), (demoEnv 0.9, ''second'')]" "demoEnv 0.9" "''third''"]
    by (simp add: demoEngine_def)
qed



end
